theory Spec2Isabelle
  imports Complex_Main
begin

section \<open>Python values\<close>

text \<open>
  Exceptions of the Python source are values: a function that can raise returns
  \<open>error + 'a\<close>, with \<open>Inl\<close> the exception. Python's unbounded integers are \<open>int\<close>.
  Python's floats are modelled by exact real numbers: the properties proved below are
  about order, ranges and thresholds, and not about rounded values.
\<close>

datatype error = ZeroDivisionError | ValueError | KeyError

text \<open>\<^verbatim>\<open>int(r)\<close> on a float truncates towards zero.\<close>

definition py_int :: "real \<Rightarrow> int" where
  "py_int r = (if 0 \<le> r then \<lfloor>r\<rfloor> else \<lceil>r\<rceil>)"

text \<open>\<^verbatim>\<open>round(r)\<close> on a float rounds to the nearest integer, a tie going to the even one.\<close>

definition py_round :: "real \<Rightarrow> int" where
  "py_round r =
     (let f = \<lfloor>r\<rfloor>; d = r - of_int f
      in if d < 1 / 2 then f
         else if 1 / 2 < d then f + 1
         else if even f then f else f + 1)"

text \<open>\<^verbatim>\<open>a / b\<close> on numbers raises when the divisor is zero.\<close>

definition py_truediv :: "real \<Rightarrow> real \<Rightarrow> error + real" where
  "py_truediv a b = (if b = 0 then Inl ZeroDivisionError else Inr (a / b))"

text \<open>\<^verbatim>\<open>str(n)\<close>, as an f-string formats an integer: decimal digits, a minus sign first.\<close>

fun str_nat :: "nat \<Rightarrow> string" where
  "str_nat n =
     (if n < 10 then [''0123456789'' ! n]
      else str_nat (n div 10) @ [''0123456789'' ! (n mod 10)])"

definition str_int :: "int \<Rightarrow> string" where
  "str_int i = (if i < 0 then ''-'' @ str_nat (nat (- i)) else str_nat (nat i))"

text \<open>
  \<^verbatim>\<open>min(xs, key=f)\<close>: the first element whose key is minimal; \<^verbatim>\<open>ValueError\<close> on an
  empty sequence.
\<close>

fun min_key_from :: "('a \<Rightarrow> int) \<Rightarrow> 'a \<Rightarrow> 'a list \<Rightarrow> 'a" where
  "min_key_from f b [] = b"
| "min_key_from f b (a # as) = min_key_from f (if f a < f b then a else b) as"

definition min_key :: "('a \<Rightarrow> int) \<Rightarrow> 'a list \<Rightarrow> error + 'a" where
  "min_key f xs = (case xs of [] \<Rightarrow> Inl ValueError | x # ys \<Rightarrow> Inr (min_key_from f x ys))"

section \<open>config.py\<close>

definition CAMERA_WIDTH :: int where "CAMERA_WIDTH = 640"
definition CAMERA_HEIGHT :: int where "CAMERA_HEIGHT = 480"
definition MIN_NOTE :: int where "MIN_NOTE = 48"
definition MAX_NOTE :: int where "MAX_NOTE = 84"
definition MIN_VOLUME :: int where "MIN_VOLUME = 30"
definition MAX_VOLUME :: int where "MAX_VOLUME = 127"
definition MIN_BRUSH_THICKNESS :: int where "MIN_BRUSH_THICKNESS = 3"
definition MAX_BRUSH_THICKNESS :: int where "MAX_BRUSH_THICKNESS = 30"

text \<open>\<^verbatim>\<open>INSTRUMENTS[key]['wave_type']\<close>: the only entry of the table the engine reads.\<close>

definition INSTRUMENTS_wave_type :: "string \<rightharpoonup> string" where
  "INSTRUMENTS_wave_type =
     map_of [(''piano'', ''sine''), (''guitar'', ''triangle''), (''drums'', ''noise''),
             (''synth'', ''square''), (''strings'', ''sawtooth'')]"

definition INSTRUMENT_LIST :: "string list" where
  "INSTRUMENT_LIST = [''piano'', ''guitar'', ''drums'', ''synth'', ''strings'']"

definition DEFAULT_INSTRUMENT :: string where "DEFAULT_INSTRUMENT = ''piano''"

definition SCALE_TYPES :: "string \<rightharpoonup> int list" where
  "SCALE_TYPES =
     map_of [(''major'', [0, 2, 4, 5, 7, 9, 11]),
             (''minor'', [0, 2, 3, 5, 7, 8, 10]),
             (''pentatonic'', [0, 2, 4, 7, 9]),
             (''blues'', [0, 3, 5, 6, 7, 10]),
             (''chromatic'', map int [0..<12])]"

definition DEFAULT_SCALE :: string where "DEFAULT_SCALE = ''pentatonic''"
definition DEFAULT_ROOT :: int where "DEFAULT_ROOT = 60"

definition map_x_to_note :: "int \<Rightarrow> int \<Rightarrow> error + int" where
  "map_x_to_note x0 width =
     (let x = max 0 (min x0 (width - 1))
      in case py_truediv (of_int x) (of_int width) of
           Inl e \<Rightarrow> Inl e
         | Inr q \<Rightarrow> Inr (py_int (of_int MIN_NOTE + q * of_int (MAX_NOTE - MIN_NOTE))))"


definition map_thickness_to_volume :: "int \<Rightarrow> int" where
  "map_thickness_to_volume thickness0 =
     (let thickness = max MIN_BRUSH_THICKNESS (min thickness0 MAX_BRUSH_THICKNESS);
          ratio = of_int (thickness - MIN_BRUSH_THICKNESS)
                  / of_int (MAX_BRUSH_THICKNESS - MIN_BRUSH_THICKNESS)
      in py_int (of_int MIN_VOLUME + ratio * of_int (MAX_VOLUME - MIN_VOLUME)))"

text \<open>
  \<^verbatim>\<open>SCALE_TYPES.get(scale_type, SCALE_TYPES['pentatonic'])\<close>: the default is looked up
  first, as Python evaluates the arguments of \<^verbatim>\<open>get\<close> before the call.
\<close>

definition scale_of :: "string \<Rightarrow> error + int list" where
  "scale_of scale_type =
     (case SCALE_TYPES ''pentatonic'' of
        None \<Rightarrow> Inl KeyError
      | Some dflt \<Rightarrow>
          (case SCALE_TYPES scale_type of None \<Rightarrow> Inr dflt | Some sc \<Rightarrow> Inr sc))"

definition quantize_to_scale :: "int \<Rightarrow> string \<Rightarrow> int \<Rightarrow> error + int" where
  "quantize_to_scale note scale_type root_note =
     (case scale_of scale_type of
        Inl e \<Rightarrow> Inl e
      | Inr scale \<Rightarrow>
          (let relative = (note - root_note) mod 12;
               octave = (note - root_note) div 12
           in case min_key (\<lambda>s. \<bar>s - relative\<bar>) scale of
                Inl e \<Rightarrow> Inl e
              | Inr closest \<Rightarrow> Inr (root_note + octave * 12 + closest)))"

section \<open>project_model.py\<close>

text \<open>
  The dataclasses \<^verbatim>\<open>Point\<close>, \<^verbatim>\<open>Stroke\<close> and \<^verbatim>\<open>Project\<close>. Field names carry a prefix
  (\<open>pt_\<close>, \<open>st_\<close>, \<open>pj_\<close>), since the Python classes share names such as \<^verbatim>\<open>x\<close>,
  \<^verbatim>\<open>instrument\<close> and \<^verbatim>\<open>bpm\<close>.
\<close>

record Point =
  pt_x :: int
  pt_y :: int
  pt_t :: real
  pt_thickness :: int

record Stroke =
  st_instrument :: string
  st_color :: "int \<times> int \<times> int"
  st_points :: "Point list"
  st_start_t :: real
  st_end_t :: real
  st_stroke_id :: string

record Project =
  pj_name :: string
  pj_bpm :: int
  pj_quantize :: string
  pj_scale :: string
  pj_root_note :: int
  pj_width :: int
  pj_height :: int
  pj_strokes :: "Stroke list"
  pj_created_at :: string
  pj_duration :: real

definition quantize_time :: "real \<Rightarrow> int \<Rightarrow> string \<Rightarrow> error + real" where
  "quantize_time t bpm quantize =
     (case py_truediv 60 (of_int bpm) of
        Inl e \<Rightarrow> Inl e
      | Inr beat_duration \<Rightarrow>
          (let grid = (if quantize = ''1/4'' then beat_duration
                       else if quantize = ''1/8'' then beat_duration / 2
                       else if quantize = ''1/16'' then beat_duration / 4
                       else beat_duration / 2)
           in case py_truediv t grid of
                Inl e \<Rightarrow> Inl e
              | Inr q \<Rightarrow> Inr (of_int (py_round q) * grid)))"

section \<open>sequencer.py\<close>

datatype PlaybackMode = SCAN | TIMELINE

record SequenceEvent =
  ev_time :: real
  ev_note :: int
  ev_velocity :: int
  ev_duration :: real
  ev_instrument :: string
  ev_x :: int
  ev_y :: int

text \<open>
  The state of a \<^verbatim>\<open>Sequencer\<close>. The thread handle \<^verbatim>\<open>_playback_thread\<close> is replaced by
  \<open>sq_loops_started\<close>, the number of scheduling loops launched so far
  (\<^verbatim>\<open>threading.Thread(target=self._playback_loop).start()\<close>); \<open>sq_stop_event\<close> is the
  flag of \<^verbatim>\<open>_stop_event\<close>. The reference to the engine and the callbacks are not part of
  the playback state.
\<close>

record Sequencer =
  sq_project :: "Project option"
  sq_is_playing :: bool
  sq_is_paused :: bool
  sq_current_time :: real
  sq_playback_speed :: real
  sq_bpm :: int
  sq_quantize :: string
  sq_mode :: PlaybackMode
  sq_scan_duration :: real
  sq_scan_position :: int
  sq_scan_width :: int
  sq_events :: "SequenceEvent list"
  sq_event_index :: int
  sq_stop_event :: bool
  sq_loops_started :: nat

definition Sequencer_init :: Sequencer where
  "Sequencer_init =
     \<lparr>sq_project = None, sq_is_playing = False, sq_is_paused = False, sq_current_time = 0,
      sq_playback_speed = 1, sq_bpm = 120, sq_quantize = ''1/8'', sq_mode = SCAN,
      sq_scan_duration = 4, sq_scan_position = 0, sq_scan_width = 640, sq_events = [],
      sq_event_index = 0, sq_stop_event = False, sq_loops_started = 0\<rparr>"


text \<open>The dictionaries collected in \<^verbatim>\<open>all_points\<close>.\<close>

record scan_point =
  sp_x :: int
  sp_y :: int
  sp_thickness :: int
  sp_instrument :: string

definition all_points :: "Stroke list \<Rightarrow> scan_point list" where
  "all_points strokes =
     concat (map (\<lambda>stroke.
       map (\<lambda>point. \<lparr>sp_x = pt_x point, sp_y = pt_y point,
                      sp_thickness = pt_thickness point,
                      sp_instrument = st_instrument stroke\<rparr>) (st_points stroke)) strokes)"

text \<open>
  The loop \<^verbatim>\<open>for p in all_points\<close> of \<^verbatim>\<open>generate_scan_events\<close>, with its three loop
  variables \<^verbatim>\<open>events\<close>, \<^verbatim>\<open>last_note\<close> and \<^verbatim>\<open>last_x\<close>.
\<close>

fun scan_loop ::
  "Sequencer \<Rightarrow> Project \<Rightarrow> real \<Rightarrow> int \<Rightarrow> scan_point list
   \<Rightarrow> SequenceEvent list \<Rightarrow> int \<Rightarrow> int \<Rightarrow> error + SequenceEvent list" where
  "scan_loop s project beat_duration min_x_gap [] events last_note last_x = Inr events"
| "scan_loop s project beat_duration min_x_gap (p # ps) events last_note last_x =
     (if 0 \<le> last_x \<and> \<bar>sp_x p - last_x\<bar> < min_x_gap
      then scan_loop s project beat_duration min_x_gap ps events last_note last_x
      else case py_truediv (of_int (sp_x p)) (of_int (sq_scan_width s)) of
        Inl e \<Rightarrow> Inl e
      | Inr q \<Rightarrow>
      (case quantize_time (q * sq_scan_duration s) (sq_bpm s) (sq_quantize s) of
        Inl e \<Rightarrow> Inl e
      | Inr t \<Rightarrow>
      (case map_x_to_note (sp_x p) (sq_scan_width s) of
        Inl e \<Rightarrow> Inl e
      | Inr raw \<Rightarrow>
      (case quantize_to_scale raw (pj_scale project) (pj_root_note project) of
        Inl e \<Rightarrow> Inl e
      | Inr note \<Rightarrow>
          if note = last_note \<and> 0 < length events \<and> \<bar>t - ev_time (last events)\<bar> < 1 / 10
          then scan_loop s project beat_duration min_x_gap ps events last_note last_x
          else scan_loop s project beat_duration min_x_gap ps
                 (events @ [\<lparr>ev_time = t, ev_note = note,
                              ev_velocity = map_thickness_to_volume (sp_thickness p),
                              ev_duration = beat_duration / 2,
                              ev_instrument = sp_instrument p,
                              ev_x = sp_x p, ev_y = sp_y p\<rparr>])
                 note (sp_x p)))))"

definition generate_scan_events :: "Sequencer \<Rightarrow> error + SequenceEvent list" where
  "generate_scan_events s =
     (case sq_project s of
        None \<Rightarrow> Inr []
      | Some project \<Rightarrow>
          if pj_strokes project = [] then Inr []
          else case py_truediv 60 (of_int (sq_bpm s)) of
                 Inl e \<Rightarrow> Inl e
               | Inr beat_duration \<Rightarrow>
                   scan_loop s project beat_duration (sq_scan_width s div 32)
                     (sort_key sp_x (all_points (pj_strokes project))) [] (- 1) (- 1))"

text \<open>A loop body that can raise, run over a list: the first exception ends the loop.\<close>

fun collect :: "('a \<Rightarrow> error + 'b) \<Rightarrow> 'a list \<Rightarrow> error + 'b list" where
  "collect f [] = Inr []"
| "collect f (x # xs) =
     (case f x of
        Inl e \<Rightarrow> Inl e
      | Inr y \<Rightarrow> (case collect f xs of Inl e \<Rightarrow> Inl e | Inr ys \<Rightarrow> Inr (y # ys)))"

definition timeline_event ::
  "Sequencer \<Rightarrow> Project \<Rightarrow> real \<Rightarrow> Stroke \<Rightarrow> Point \<Rightarrow> error + SequenceEvent" where
  "timeline_event s project beat_duration stroke point =
     (case quantize_time (pt_t point) (sq_bpm s) (sq_quantize s) of
        Inl e \<Rightarrow> Inl e
      | Inr t \<Rightarrow>
      (case map_x_to_note (pt_x point) (pj_width project) of
        Inl e \<Rightarrow> Inl e
      | Inr raw \<Rightarrow>
      (case quantize_to_scale raw (pj_scale project) (pj_root_note project) of
        Inl e \<Rightarrow> Inl e
      | Inr note \<Rightarrow>
          Inr \<lparr>ev_time = t, ev_note = note,
               ev_velocity = map_thickness_to_volume (pt_thickness point),
               ev_duration = beat_duration / 2,
               ev_instrument = st_instrument stroke,
               ev_x = pt_x point, ev_y = pt_y point\<rparr>)))"

definition sampled_points :: "Stroke \<Rightarrow> Point list" where
  "sampled_points stroke =
     (let sample_interval = max 1 (length (st_points stroke) div 8)
      in map snd (filter (\<lambda>(i, point). i mod sample_interval = 0)
                         (enumerate 0 (st_points stroke))))"

definition generate_timeline_events :: "Sequencer \<Rightarrow> error + SequenceEvent list" where
  "generate_timeline_events s =
     (case sq_project s of
        None \<Rightarrow> Inr []
      | Some project \<Rightarrow>
          if pj_strokes project = [] then Inr []
          else case py_truediv 60 (of_int (sq_bpm s)) of
                 Inl e \<Rightarrow> Inl e
               | Inr beat_duration \<Rightarrow>
                   (case collect (\<lambda>stroke. collect (timeline_event s project beat_duration stroke)
                                                     (sampled_points stroke))
                                 (pj_strokes project) of
                      Inl e \<Rightarrow> Inl e
                    | Inr evss \<Rightarrow> Inr (sort_key ev_time (concat evss))))"

text \<open>
  An exception raised while the events are generated leaves \<^verbatim>\<open>prepare_playback\<close> and
  \<^verbatim>\<open>start\<close>; the result is then the exception alone.
\<close>

definition prepare_playback :: "Sequencer \<Rightarrow> PlaybackMode option \<Rightarrow> error + Sequencer" where
  "prepare_playback s mode =
     (let s1 = (case mode of Some m \<Rightarrow> s\<lparr>sq_mode := m\<rparr> | None \<Rightarrow> s)
      in case (if sq_mode s1 = SCAN then generate_scan_events s1
               else generate_timeline_events s1) of
           Inl e \<Rightarrow> Inl e
         | Inr evs \<Rightarrow>
             Inr (s1\<lparr>sq_events := evs, sq_event_index := 0, sq_current_time := 0,
                      sq_scan_position := 0\<rparr>))"

definition start :: "Sequencer \<Rightarrow> error + Sequencer" where
  "start s =
     (if sq_is_playing s then Inr s
      else case prepare_playback s None of
             Inl e \<Rightarrow> Inl e
           | Inr s1 \<Rightarrow>
               Inr (s1\<lparr>sq_is_playing := True, sq_is_paused := False, sq_stop_event := False,
                        sq_loops_started := Suc (sq_loops_started s1)\<rparr>))"

section \<open>music_engine.py\<close>

record NoteEvent =
  ne_note :: int
  ne_velocity :: int
  ne_duration :: int
  ne_instrument :: string
  ne_timestamp :: real
  ne_x :: int
  ne_y :: int

text \<open>
  The state of a \<^verbatim>\<open>MusicEngine\<close>, with the fields of the trigger, recording and bass
  paths. \<open>'snd\<close> is the type of a \<^verbatim>\<open>pygame.mixer.Sound\<close>. The calls
  \<^verbatim>\<open>sound.set_volume(v); sound.play()\<close> are recorded in \<open>me_played\<close>, as the cache key
  of the sound and the volume. The visualisation state (\<^verbatim>\<open>waveform_data\<close>,
  \<^verbatim>\<open>active_notes\<close>) and the drum, chord and metronome fields are left out: no function
  below reads them.
\<close>

record 'snd MusicEngine =
  me_audio_initialized :: bool
  me_current_instrument :: string
  me_instrument_index :: int
  me_scale_type :: string
  me_root_note :: int
  me_is_playing :: bool
  me_is_recording :: bool
  me_last_note :: int
  me_last_note_time :: real
  me_min_note_interval :: real
  me_last_preview_x :: int
  me_last_preview_y :: int
  me_last_preview_time :: real
  me_preview_min_interval :: real
  me_preview_min_distance :: real
  me_recorded_notes :: "NoteEvent list"
  me_recording_start_time :: real
  me_bass_enabled :: bool
  me_bass_interval :: real
  me_last_bass_time :: real
  me_bass_note :: int
  me_note_cache :: "string \<rightharpoonup> 'snd"
  me_played :: "(string \<times> real) list"

text \<open>The f-string \<^verbatim>\<open>f"{instrument}_{note}"\<close>.\<close>

definition cache_key :: "string \<Rightarrow> int \<Rightarrow> string" where
  "cache_key instrument note = instrument @ ''_'' @ str_int note"

definition note_to_freq :: "int \<Rightarrow> real" where
  "note_to_freq note = 440 * 2 powr (of_int (note - 69) / 12)"

text \<open>
  The synthesis functions (\<^verbatim>\<open>_generate_tone\<close>, \<^verbatim>\<open>_generate_bass_tone\<close>) compute samples
  with numpy and hand them to pygame; they are parameters here, returning \<open>None\<close> where
  the source returns \<^verbatim>\<open>None\<close>.
\<close>

fun pregenerate_instrument ::
  "(real \<Rightarrow> real \<Rightarrow> string \<Rightarrow> 'snd option) \<Rightarrow> string \<Rightarrow> string \<Rightarrow> int list
   \<Rightarrow> (string \<rightharpoonup> 'snd) \<Rightarrow> (string \<rightharpoonup> 'snd)" where
  "pregenerate_instrument generate_tone instrument_key wave_type [] cache = cache"
| "pregenerate_instrument generate_tone instrument_key wave_type (note # notes) cache =
     pregenerate_instrument generate_tone instrument_key wave_type notes
       (case generate_tone (note_to_freq note) (3 / 10) wave_type of
          None \<Rightarrow> cache
        | Some sound \<Rightarrow> cache(cache_key instrument_key note \<mapsto> sound))"

fun pregenerate_instruments ::
  "(real \<Rightarrow> real \<Rightarrow> string \<Rightarrow> 'snd option) \<Rightarrow> string list
   \<Rightarrow> (string \<rightharpoonup> 'snd) \<Rightarrow> error + (string \<rightharpoonup> 'snd)" where
  "pregenerate_instruments generate_tone [] cache = Inr cache"
| "pregenerate_instruments generate_tone (instrument_key # keys) cache =
     (case INSTRUMENTS_wave_type instrument_key of
        None \<Rightarrow> Inl KeyError
      | Some wave_type \<Rightarrow>
          pregenerate_instruments generate_tone keys
            (pregenerate_instrument generate_tone instrument_key wave_type
               [MIN_NOTE..MAX_NOTE] cache))"

text \<open>
  \<^verbatim>\<open>_pregenerate_notes\<close>. The warm-up at its end plays the middle C of every instrument
  muted and stops it at once; it changes no field of the state.
\<close>

definition pregenerate_notes ::
  "(real \<Rightarrow> real \<Rightarrow> string \<Rightarrow> 'snd option) \<Rightarrow> 'snd MusicEngine \<Rightarrow> error + 'snd MusicEngine" where
  "pregenerate_notes generate_tone s =
     (if \<not> me_audio_initialized s then Inr s
      else case pregenerate_instruments generate_tone INSTRUMENT_LIST (me_note_cache s) of
             Inl e \<Rightarrow> Inl e
           | Inr cache \<Rightarrow> Inr (s\<lparr>me_note_cache := cache\<rparr>))"

fun pregenerate_bass_loop ::
  "(real \<Rightarrow> 'snd option) \<Rightarrow> int list \<Rightarrow> (string \<rightharpoonup> 'snd) \<Rightarrow> (string \<rightharpoonup> 'snd)" where
  "pregenerate_bass_loop generate_bass_tone [] cache = cache"
| "pregenerate_bass_loop generate_bass_tone (note # notes) cache =
     pregenerate_bass_loop generate_bass_tone notes
       (case generate_bass_tone (note_to_freq note) of
          None \<Rightarrow> cache
        | Some sound \<Rightarrow> cache(''bass_'' @ str_int note \<mapsto> sound))"

definition pregenerate_bass :: "(real \<Rightarrow> 'snd option) \<Rightarrow> 'snd MusicEngine \<Rightarrow> 'snd MusicEngine" where
  "pregenerate_bass generate_bass_tone s =
     (if \<not> me_audio_initialized s then s
      else s\<lparr>me_note_cache := pregenerate_bass_loop generate_bass_tone [24..48] (me_note_cache s)\<rparr>)"

definition set_bass_enabled :: "'snd MusicEngine \<Rightarrow> bool \<Rightarrow> 'snd MusicEngine" where
  "set_bass_enabled s enabled = s\<lparr>me_bass_enabled := enabled\<rparr>"

text \<open>
  \<^verbatim>\<open>play_bass_note\<close>; \<open>now\<close> is the value that \<^verbatim>\<open>time.time()\<close> returns in the call.
\<close>

definition play_bass_note :: "'snd MusicEngine \<Rightarrow> int option \<Rightarrow> real \<Rightarrow> 'snd MusicEngine" where
  "play_bass_note s root_note0 now =
     (if \<not> me_bass_enabled s \<or> \<not> me_audio_initialized s then s
      else if now - me_last_bass_time s < me_bass_interval s then s
      else
        let root_note = (case root_note0 of None \<Rightarrow> me_root_note s | Some r \<Rightarrow> r);
            bass_note = root_note mod 12 + 24;
            key = ''bass_'' @ str_int bass_note;
            s1 = (case me_note_cache s key of
                    None \<Rightarrow> s
                  | Some sound \<Rightarrow> s\<lparr>me_played := me_played s @ [(key, 1 / 2)]\<rparr>)
        in s1\<lparr>me_last_bass_time := now\<rparr>)"










text \<open>
  \<^verbatim>\<open>_pregenerate_drums\<close> and \<^verbatim>\<open>_pregenerate_metronome\<close>, with their synthesis functions
  as parameters.
\<close>

definition pregenerate_drums :: "(string \<Rightarrow> 'snd option) \<Rightarrow> 'snd MusicEngine \<Rightarrow> 'snd MusicEngine" where
  "pregenerate_drums generate_drum_sound s =
     (if \<not> me_audio_initialized s then s
      else
        let c1 = (case generate_drum_sound ''kick'' of
                    None \<Rightarrow> me_note_cache s
                  | Some kick \<Rightarrow> (me_note_cache s)(''drum_kick'' \<mapsto> kick));
            c2 = (case generate_drum_sound ''snare'' of
                    None \<Rightarrow> c1
                  | Some snare \<Rightarrow> c1(''drum_snare'' \<mapsto> snare));
            c3 = (case generate_drum_sound ''hihat'' of
                    None \<Rightarrow> c2
                  | Some hihat \<Rightarrow> c2(''drum_hihat'' \<mapsto> hihat))
        in s\<lparr>me_note_cache := c3\<rparr>)"

definition pregenerate_metronome ::
  "(real \<Rightarrow> real \<Rightarrow> 'snd option) \<Rightarrow> 'snd MusicEngine \<Rightarrow> 'snd MusicEngine" where
  "pregenerate_metronome generate_metronome_tick s =
     (if \<not> me_audio_initialized s then s
      else
        let c1 = (case generate_metronome_tick 1200 (5 / 100) of
                    None \<Rightarrow> me_note_cache s
                  | Some tick_high \<Rightarrow> (me_note_cache s)(''metronome_high'' \<mapsto> tick_high));
            c2 = (case generate_metronome_tick 800 (4 / 100) of
                    None \<Rightarrow> c1
                  | Some tick_low \<Rightarrow> c1(''metronome_low'' \<mapsto> tick_low))
        in s\<lparr>me_note_cache := c2\<rparr>)"

text \<open>
  \<^verbatim>\<open>MusicEngine.__init__\<close>: the assignments, with \<open>audio_ok\<close> telling whether
  \<^verbatim>\<open>_init_audio\<close> found an audio device, and then the four cache builds.
\<close>

definition MusicEngine_fields :: "bool \<Rightarrow> 'snd MusicEngine" where
  "MusicEngine_fields audio_ok =
     \<lparr>me_audio_initialized = audio_ok,
      me_current_instrument = DEFAULT_INSTRUMENT,
      me_instrument_index = 0,
      me_scale_type = DEFAULT_SCALE,
      me_root_note = DEFAULT_ROOT,
      me_is_playing = True,
      me_is_recording = False,
      me_last_note = - 1,
      me_last_note_time = 0,
      me_min_note_interval = 2 / 100,
      me_last_preview_x = 0,
      me_last_preview_y = 0,
      me_last_preview_time = 0,
      me_preview_min_interval = 8 / 100,
      me_preview_min_distance = 30,
      me_recorded_notes = [],
      me_recording_start_time = 0,
      me_bass_enabled = False,
      me_bass_interval = 1 / 2,
      me_last_bass_time = 0,
      me_bass_note = 36,
      me_note_cache = Map.empty,
      me_played = []\<rparr>"

definition MusicEngine_init ::
  "(real \<Rightarrow> real \<Rightarrow> string \<Rightarrow> 'snd option) \<Rightarrow> (string \<Rightarrow> 'snd option) \<Rightarrow> (real \<Rightarrow> 'snd option)
   \<Rightarrow> (real \<Rightarrow> real \<Rightarrow> 'snd option) \<Rightarrow> bool \<Rightarrow> error + 'snd MusicEngine" where
  "MusicEngine_init generate_tone generate_drum_sound generate_bass_tone generate_metronome_tick
     audio_ok =
     (case pregenerate_notes generate_tone (MusicEngine_fields audio_ok) of
        Inl e \<Rightarrow> Inl e
      | Inr s \<Rightarrow>
          Inr (pregenerate_metronome generate_metronome_tick
                 (pregenerate_bass generate_bass_tone
                    (pregenerate_drums generate_drum_sound s))))"

text \<open>
  \<^verbatim>\<open>export_audio\<close> and the files it writes. A file system is the set of its directories
  and a map from paths to the contents of files; \<open>'w\<close> is the type of the frames of a WAV
  file. Paths are joined as \<^verbatim>\<open>os.path.join\<close> does on POSIX. The body of the
  \<^verbatim>\<open>try\<close> block, which renders and mixes the notes with numpy in floating point, is the
  parameter \<open>render\<close>: it returns the frames written, or \<open>None\<close> when the block raises.
  \<open>stamp\<close> is the text of \<^verbatim>\<open>datetime.now().strftime("%Y%m%d_%H%M%S")\<close>.
\<close>

definition RECORDING_FOLDER :: string where "RECORDING_FOLDER = ''Recordings''"

record 'w FileSystem =
  fs_dirs :: "string set"
  fs_files :: "string \<rightharpoonup> 'w"

definition lower_char :: "char \<Rightarrow> char" where
  "lower_char c =
     (let n = (of_char c :: nat) in if 65 \<le> n \<and> n \<le> 90 then char_of (n + 32) else c)"

definition endswith :: "string \<Rightarrow> string \<Rightarrow> bool" where
  "endswith s suffix =
     (length suffix \<le> length s \<and> drop (length s - length suffix) s = suffix)"

text \<open>\<^verbatim>\<open>s.rsplit('.', 1)[0]\<close>: the text before the last dot, all of \<open>s\<close> without a dot.\<close>

definition rsplit_dot_head :: "string \<Rightarrow> string" where
  "rsplit_dot_head s =
     (if CHR ''.'' \<in> set s then rev (tl (dropWhile (\<lambda>c. c \<noteq> CHR ''.'') (rev s))) else s)"

definition path_join :: "string \<Rightarrow> string \<Rightarrow> string" where
  "path_join a b =
     (if b \<noteq> [] \<and> hd b = CHR ''/'' then b
      else if a = [] \<or> last a = CHR ''/'' then a @ b
      else a @ ''/'' @ b)"

definition export_audio ::
  "(NoteEvent list \<Rightarrow> 'w option) \<Rightarrow> string \<Rightarrow> 'snd MusicEngine \<Rightarrow> string option
   \<Rightarrow> NoteEvent list option \<Rightarrow> 'w FileSystem \<Rightarrow> string option \<times> 'w FileSystem" where
  "export_audio render stamp s filename0 notes0 fs =
     (let notes = (case notes0 of None \<Rightarrow> me_recorded_notes s | Some ns \<Rightarrow> ns)
      in if notes = [] then (None, fs)
         else
           let fs1 = fs\<lparr>fs_dirs := insert RECORDING_FOLDER (fs_dirs fs)\<rparr>;
               filename1 = (case filename0 of
                              None \<Rightarrow> ''music_'' @ stamp @ ''.wav''
                            | Some f \<Rightarrow> f);
               filename = (if \<not> endswith (map lower_char filename1) ''.wav''
                           then rsplit_dot_head filename1 @ ''.wav'' else filename1);
               filepath = path_join RECORDING_FOLDER filename
           in case render notes of
                None \<Rightarrow> (None, fs1)
              | Some frames \<Rightarrow>
                  (Some filepath, fs1\<lparr>fs_files := (fs_files fs1)(filepath \<mapsto> frames)\<rparr>))"

section \<open>Example states\<close>



section \<open>Properties of config.py\<close>

text \<open>
  The element that \<open>min_key\<close> returns splits the list: every element before it has a
  strictly larger key, every element after it a key at least as large.
\<close>

lemma min_key_from_split:
  "min_key_from f b as = r \<Longrightarrow>
   \<exists>ys zs. b # as = ys @ r # zs \<and> (\<forall>y\<in>set ys. f r < f y) \<and> (\<forall>z\<in>set zs. f r \<le> f z)"
proof (induction as arbitrary: b)
  case Nil
  then have "[b] = [] @ r # [] \<and> (\<forall>y\<in>set []. f r < f y) \<and> (\<forall>z\<in>set []. f r \<le> f z)"
    by simp
  then show ?case by blast
next
  case (Cons a as)
  show ?case
  proof (cases "f a < f b")
    case True
    with Cons.prems have "min_key_from f a as = r" by simp
    from Cons.IH [OF this] obtain ys zs where
      s: "a # as = ys @ r # zs" and l: "\<forall>y\<in>set ys. f r < f y" and g: "\<forall>z\<in>set zs. f r \<le> f z"
      by blast
    have "f r \<le> f a"
    proof (cases ys)
      case Nil with s show ?thesis by simp
    next
      case (Cons y ys') with s l show ?thesis by auto
    qed
    with True have "f r < f b" by simp
    with s l g have "b # a # as = (b # ys) @ r # zs
      \<and> (\<forall>y\<in>set (b # ys). f r < f y) \<and> (\<forall>z\<in>set zs. f r \<le> f z)" by simp
    then show ?thesis by blast
  next
    case False
    with Cons.prems have "min_key_from f b as = r" by simp
    from Cons.IH [OF this] obtain ys zs where
      s: "b # as = ys @ r # zs" and l: "\<forall>y\<in>set ys. f r < f y" and g: "\<forall>z\<in>set zs. f r \<le> f z"
      by blast
    show ?thesis
    proof (cases ys)
      case Nil
      with s have rb: "r = b" and zs: "zs = as" by simp_all
      from False rb g zs have "b # a # as = [] @ r # (a # as)
        \<and> (\<forall>y\<in>set []. f r < f y) \<and> (\<forall>z\<in>set (a # as). f r \<le> f z)" by simp
      then show ?thesis by blast
    next
      case (Cons y ys')
      with s have yb: "y = b" and as: "as = ys' @ r # zs" by simp_all
      from l Cons yb have "f r < f b" by simp
      with False have "f r < f a" by simp
      with l g Cons yb as have "b # a # as = (b # a # ys') @ r # zs
        \<and> (\<forall>y\<in>set (b # a # ys'). f r < f y) \<and> (\<forall>z\<in>set zs. f r \<le> f z)" by auto
      then show ?thesis by blast
    qed
  qed
qed

lemma min_key_split:
  assumes "min_key f xs = Inr r"
  shows "\<exists>ys zs. xs = ys @ r # zs \<and> (\<forall>y\<in>set ys. f r < f y) \<and> (\<forall>z\<in>set zs. f r \<le> f z)"
proof (cases xs)
  case Nil
  with assms show ?thesis by (simp add: min_key_def)
next
  case (Cons x xs')
  with assms have "min_key_from f x xs' = r" by (simp add: min_key_def)
  from min_key_from_split [OF this] Cons show ?thesis by simp
qed

lemma min_key_total: "xs \<noteq> [] \<Longrightarrow> \<exists>r. min_key f xs = Inr r"
  by (cases xs) (simp_all add: min_key_def)

lemma scale_of_cases:
  "scale_of st = Inr [0, 2, 4, 5, 7, 9, 11] \<or> scale_of st = Inr [0, 2, 3, 5, 7, 8, 10]
   \<or> scale_of st = Inr [0, 2, 4, 7, 9] \<or> scale_of st = Inr [0, 3, 5, 6, 7, 10]
   \<or> scale_of st = Inr [0, 1, 2, 3, 4, 5, 6, 7, 8, 9, 10, 11]"
  by (simp add: scale_of_def SCALE_TYPES_def upt_rec)

lemma scale_of_props:
  "\<exists>sc. scale_of st = Inr sc \<and> sc \<noteq> [] \<and> (\<forall>s\<in>set sc. 0 \<le> s \<and> s < 12)"
  using scale_of_cases [of st] by auto




text \<open>
  \<^bold>\<open>C9.\<close> \<open>quantize_to_scale\<close> is idempotent: for every note \<open>n\<close>, every scale type (one
  of \<open>SCALE_TYPES\<close>, or any other string, which selects the pentatonic scale) and every
  root \<open>r\<close>, the call returns a note \<open>m\<close>, and quantizing \<open>m\<close> again returns \<open>m\<close>.
\<close>

theorem quantize_to_scale_idempotent:
  "\<exists>m. quantize_to_scale n scale_type r = Inr m \<and> quantize_to_scale m scale_type r = Inr m"
proof -
  from scale_of_props [of scale_type] obtain sc where
    sc: "scale_of scale_type = Inr sc" and ne: "sc \<noteq> []"
    and rng: "\<forall>s\<in>set sc. 0 \<le> s \<and> s < 12" by blast
  from ne obtain c where c: "min_key (\<lambda>s. \<bar>s - (n - r) mod 12\<bar>) sc = Inr c"
    using min_key_total by blast
  from min_key_split [OF c] have cin: "c \<in> set sc" by auto
  with rng have c12: "0 \<le> c" "c < 12" by auto
  define m where "m = r + ((n - r) div 12) * 12 + c"
  from sc c have qn: "quantize_to_scale n scale_type r = Inr m"
    by (simp add: quantize_to_scale_def m_def)
  have rel: "(m - r) mod 12 = c" and oct: "(m - r) div 12 = (n - r) div 12"
    using c12 by (simp_all add: m_def)
  from ne obtain c' where c': "min_key (\<lambda>s. \<bar>s - c\<bar>) sc = Inr c'"
    using min_key_total by blast
  from min_key_split [OF c'] obtain ys zs where
    s: "sc = ys @ c' # zs" and l: "\<forall>y\<in>set ys. \<bar>c' - c\<bar> < \<bar>y - c\<bar>"
    and g: "\<forall>z\<in>set zs. \<bar>c' - c\<bar> \<le> \<bar>z - c\<bar>" by blast
  from cin s have "c \<in> set ys \<or> c = c' \<or> c \<in> set zs" by auto
  with l g have "c' = c" by auto
  with sc c' rel oct have "quantize_to_scale m scale_type r = Inr m"
    by (simp add: quantize_to_scale_def m_def)
  with qn show ?thesis by blast
qed

theorem quantize_to_scale_idempotent_witness:
  "quantize_to_scale 65 ''major'' 60 = Inr 65
   \<and> (\<exists>m. quantize_to_scale 66 ''blues'' 60 = Inr m \<and> quantize_to_scale m ''blues'' 60 = Inr m)"
proof -
  have "quantize_to_scale 65 ''major'' 60 = Inr 65"
    by code_simp
  then show ?thesis
    using quantize_to_scale_idempotent [of 66 "''blues''" 60] by (rule conjI)
qed




section \<open>Properties of the sound cache\<close>








section \<open>Properties of the bass voice\<close>

lemma play_bass_note_plays:
  assumes "me_bass_enabled s" "me_audio_initialized s"
    and "\<not> now - me_last_bass_time s < me_bass_interval s"
    and "me_note_cache s (''bass_'' @ str_int (r mod 12 + 24)) = Some sound"
  shows "me_played (play_bass_note s (Some r) now)
         = me_played s @ [(''bass_'' @ str_int (r mod 12 + 24), 1 / 2)]"
  using assms by (simp add: play_bass_note_def Let_def)

text \<open>
  \<^bold>\<open>C1.\<close> The claim is that the bass voice played for the root \<open>r\<close> is the note \<open>r - 24\<close>.
  The code plays the note \<open>r mod 12 + 24\<close>. In an engine with an audio device, the bass
  cache built and the bass enabled, the call for the root 60, half a second or more after
  the last bass note, plays the sound cached as \<open>bass_24\<close>; the sound of the note
  \<open>60 - 24\<close>, cached as \<open>bass_36\<close>, is in the cache and is not played.
\<close>

theorem play_bass_note_root_60:
  "me_played (play_bass_note
      (set_bass_enabled (pregenerate_bass (\<lambda>freq. Some ()) (MusicEngine_fields True)) True)
      (Some 60) 1) = [(''bass_24'', 1 / 2)]
   \<and> ''bass_'' @ str_int (60 - 24) = ''bass_36''
   \<and> me_note_cache
        (set_bass_enabled (pregenerate_bass (\<lambda>freq. Some ()) (MusicEngine_fields True)) True)
        ''bass_36'' = Some ()"
  by code_simp

text \<open>The sound played for the root 60 is not the one of the note 36.\<close>

theorem play_bass_note_root_60_witness:
  "me_played (play_bass_note
      (set_bass_enabled (pregenerate_bass (\<lambda>freq. Some ()) (MusicEngine_fields True)) True)
      (Some 60) 1) \<noteq> [(''bass_'' @ str_int (60 - 24), 1 / 2)]"
  using play_bass_note_root_60 by simp

section \<open>Properties of export_audio\<close>

text \<open>
  \<^bold>\<open>C7.\<close> \<open>export_audio\<close> called with no notes, on an engine whose recording buffer is
  empty, returns no path and leaves the file system as it was: no file is written and no
  directory is made.
\<close>

theorem export_audio_empty:
  assumes "me_recorded_notes s = []"
  shows "export_audio render stamp s filename None fs = (None, fs)"
  using assms by (simp add: export_audio_def)

theorem export_audio_empty_witness:
  "me_recorded_notes (MusicEngine_fields True :: unit MusicEngine) = []
   \<and> export_audio (\<lambda>ns. Some (length ns)) ''20260101_120000''
        (MusicEngine_fields True :: unit MusicEngine)
        (Some ''song.wav'') None \<lparr>fs_dirs = {}, fs_files = Map.empty\<rparr>
      = (None, \<lparr>fs_dirs = {}, fs_files = Map.empty\<rparr>)"
proof -
  have h: "me_recorded_notes (MusicEngine_fields True :: unit MusicEngine) = []"
    by (simp add: MusicEngine_fields_def)
  from h export_audio_empty [OF h] show ?thesis by simp
qed

section \<open>Properties of the sequencer\<close>

text \<open>
  \<^bold>\<open>C8.\<close> \<open>start\<close> on a sequencer that is playing returns the state it was given: the
  playback state is unchanged and no scheduling loop is launched.
\<close>

theorem start_already_playing:
  assumes "sq_is_playing s"
  shows "start s = Inr s"
  using assms by (simp add: start_def)

theorem start_already_playing_witness:
  "sq_is_playing (Sequencer_init\<lparr>sq_is_playing := True\<rparr>)
   \<and> start (Sequencer_init\<lparr>sq_is_playing := True\<rparr>) = Inr (Sequencer_init\<lparr>sq_is_playing := True\<rparr>)"
proof -
  have h: "sq_is_playing (Sequencer_init\<lparr>sq_is_playing := True\<rparr>)" by simp
  from h start_already_playing [OF h] show ?thesis by simp
qed


section \<open>Properties of the trigger paths\<close>










section \<open>Properties of the recording buffer\<close>












section \<open>Properties of scan mode\<close>











end
